theory Spec2Isabelle
  imports Main "HOL-Library.Log_Nat" "HOL-Library.Sublist"
begin

section \<open>Voxia backend: the synthesis core of \<open>tts_engine.py\<close>\<close>

text \<open>
  The theory embeds \<open>TTSEngine.generate_audio_file\<close> (\<open>backend/tts_engine.py\<close>).
  The function is one long body; it is cut here along its own comment blocks into
  \<^item> \<open>resolve_voice\<close>: defaulting, validation against the catalog and the three
    script checks (source lines 26 to 90),
  \<^item> \<open>rate_string\<close>: the rate percentage and its formatting (lines 94 and 95),
  \<^item> \<open>save_audio\<close>: allocation of the output file, the provider call, the checks
    of the artifact and the two exception handlers (lines 100 to 144),
  and \<open>generate_audio_file\<close> composes them in the order of the source.
  The \<open>print\<close> calls write to the log only and are left out.
\<close>

subsection \<open>Strings\<close>

text \<open>
  A Python \<open>str\<close> is a sequence of Unicode code points, so it is a list of naturals
  here. \<open>lit\<close> reads an ASCII literal of the source.
\<close>

type_synonym pystr = "nat list"

definition lit :: "string \<Rightarrow> pystr" where
  "lit s = map of_char s"

text \<open>\<open>s.startswith(p)\<close> is \<^term>\<open>prefix p s\<close>.\<close>

text \<open>\<open>s.split("-")[0]\<close>: the part before the first hyphen, all of \<open>s\<close> when it has none.\<close>

definition split_hyphen_0 :: "pystr \<Rightarrow> pystr" where
  "split_hyphen_0 s = takeWhile (\<lambda>c. c \<noteq> 45) s"

text \<open>
  \<open>str.lower\<close>. The source uses the lowered language subtag in one place only, the
  membership test against the ASCII literals \<open>ru\<close>, \<open>uk\<close> and \<open>be\<close>. The code
  points whose lower case contains an ASCII letter are the ASCII capitals, the Kelvin sign
  U+212A (lowered to \<open>k\<close>) and U+0130 (lowered to \<open>i\<close> followed by U+0307); these are
  mapped as Python maps them. Every other code point lowers to code points outside ASCII,
  and is kept as it is: the outcome of the membership test is the one of Python for every
  string.
\<close>

definition lower_cp :: "nat \<Rightarrow> pystr" where
  "lower_cp c =
     (if 65 \<le> c \<and> c \<le> 90 then [c + 32]
      else if c = 0x212A then [0x6B]
      else if c = 0x130 then [0x69, 0x307]
      else [c])"

definition lower :: "pystr \<Rightarrow> pystr" where
  "lower s = concat (map lower_cp s)"

subsection \<open>Exceptions\<close>

text \<open>
  An exception is its class, its \<open>str()\<close> and its \<open>__cause__\<close> (set by
  \<open>raise ... from e\<close>). \<open>NoAudioReceived\<close> is the provider's class of that name;
  \<open>OtherException\<close> stands for any further subclass of \<open>Exception\<close> the provider
  library may raise, by name. \<open>CancelledError\<close> is \<open>asyncio.CancelledError\<close>, raised
  at an \<open>await\<close> when the task is cancelled; it and the classes \<open>OtherBaseException\<close>
  stands for (\<open>KeyboardInterrupt\<close>, \<open>SystemExit\<close>) derive from \<open>BaseException\<close>
  and not from \<open>Exception\<close>.
\<close>

datatype exc_class =
  ValueError | OverflowError | Exception | NoAudioReceived | OtherException pystr
  | CancelledError | OtherBaseException pystr

text \<open>Whether a class is \<open>Exception\<close> or one of its subclasses: what \<open>except Exception\<close> catches.\<close>

fun is_exception :: "exc_class \<Rightarrow> bool" where
  "is_exception CancelledError = False"
| "is_exception (OtherBaseException name) = False"
| "is_exception c = True"

datatype py_exception = PyExc (exc_class: exc_class) (exc_str: pystr) (exc_cause: "py_exception option")

subsection \<open>Floats\<close>

text \<open>
  A Python \<open>float\<close> is an IEEE 754 binary64 value: a finite value, carried as the
  rational it denotes, an infinity or a NaN. The sign of zero is not kept: the source
  passes the float through \<open>int()\<close>, which maps both zeros to \<open>0\<close>.

  \<open>round64\<close> rounds a rational to the nearest binary64 value, ties to even: the
  exponent \<open>e\<close> of the magnitude (not below \<open>-1022\<close>, where the subnormal range starts),
  the spacing \<open>2 ^ (e - 52)\<close> of the values of that binade, and the nearest multiple of
  the spacing. A result of magnitude \<open>2 ^ 1024\<close> or more is an infinity.
\<close>

datatype pyfloat = Finite rat | PosInf | NegInf | NaN

definition pow2 :: "int \<Rightarrow> rat" where
  "pow2 e = (if 0 \<le> e then 2 ^ nat e else 1 / 2 ^ nat (- e))"

text \<open>For \<open>0 < a\<close>, \<open>ilog2 a\<close> is the integer \<open>e\<close> with \<open>2 ^ e \<le> a < 2 ^ (e + 1)\<close>.\<close>

definition ilog2 :: "rat \<Rightarrow> int" where
  "ilog2 a = (if 1 \<le> a then bitlen \<lfloor>a\<rfloor> - 1 else - bitlen (\<lceil>1 / a\<rceil> - 1))"

definition round_half_even :: "rat \<Rightarrow> int" where
  "round_half_even y =
     (let f = \<lfloor>y\<rfloor>; d = y - of_int f
      in if d < 1 / 2 then f
         else if 1 / 2 < d then f + 1
         else if even f then f else f + 1)"

definition round_mag :: "rat \<Rightarrow> rat" where
  "round_mag a =
     (let e = max (ilog2 a) (- 1022); q = pow2 (e - 52)
      in of_int (round_half_even (a / q)) * q)"

definition round64 :: "rat \<Rightarrow> pyfloat" where
  "round64 x =
     (if x = 0 then Finite 0
      else let r = round_mag \<bar>x\<bar>
           in if pow2 1024 \<le> r then (if 0 < x then PosInf else NegInf)
              else Finite (if 0 < x then r else - r))"

text \<open>Subtraction and multiplication of floats: the exact result, rounded.\<close>

fun fsub :: "pyfloat \<Rightarrow> pyfloat \<Rightarrow> pyfloat" where
  "fsub (Finite a) (Finite b) = round64 (a - b)"
| "fsub NaN _ = NaN"
| "fsub _ NaN = NaN"
| "fsub PosInf PosInf = NaN"
| "fsub NegInf NegInf = NaN"
| "fsub PosInf _ = PosInf"
| "fsub NegInf _ = NegInf"
| "fsub (Finite a) PosInf = NegInf"
| "fsub (Finite a) NegInf = PosInf"

definition fneg :: "pyfloat \<Rightarrow> pyfloat" where
  "fneg x = (case x of Finite a \<Rightarrow> Finite (- a) | PosInf \<Rightarrow> NegInf | NegInf \<Rightarrow> PosInf | NaN \<Rightarrow> NaN)"

fun fmul :: "pyfloat \<Rightarrow> pyfloat \<Rightarrow> pyfloat" where
  "fmul (Finite a) (Finite b) = round64 (a * b)"
| "fmul NaN _ = NaN"
| "fmul _ NaN = NaN"
| "fmul (Finite a) y = (if a = 0 then NaN else if 0 < a then y else fneg y)"
| "fmul x (Finite b) = (if b = 0 then NaN else if 0 < b then x else fneg x)"
| "fmul PosInf y = y"
| "fmul NegInf y = fneg y"

text \<open>
  \<open>int(x)\<close> on a float truncates towards zero; it raises \<open>OverflowError\<close> on an
  infinity and \<open>ValueError\<close> on a NaN.
\<close>

definition py_int :: "pyfloat \<Rightarrow> py_exception + int" where
  "py_int x =
     (case x of
        Finite a \<Rightarrow> Inr (if 0 \<le> a then \<lfloor>a\<rfloor> else \<lceil>a\<rceil>)
      | PosInf \<Rightarrow> Inl (PyExc OverflowError (lit ''cannot convert float infinity to integer'') None)
      | NegInf \<Rightarrow> Inl (PyExc OverflowError (lit ''cannot convert float infinity to integer'') None)
      | NaN \<Rightarrow> Inl (PyExc ValueError (lit ''cannot convert float NaN to integer'') None))"

subsection \<open>The rate string (lines 94 and 95)\<close>

text \<open>The decimal digits of a natural number, as code points.\<close>

function decimal :: "nat \<Rightarrow> pystr" where
  "decimal n = (if n < 10 then [48 + n] else decimal (n div 10) @ [48 + n mod 10])"
  by pat_completeness auto
termination
  by (relation "measure id") auto

declare decimal.simps [simp del]

text \<open>The format \<open>{rate_pct:+d}\<close>: a sign, always, then the digits of the magnitude.\<close>

definition format_plus_d :: "int \<Rightarrow> pystr" where
  "format_plus_d n = (if n < 0 then lit ''-'' else lit ''+'') @ decimal (nat \<bar>n\<bar>)"

text \<open>
  \<^verbatim>\<open>rate_pct = int((speed - 1.0) * 100)\<close>
  \<^verbatim>\<open>rate_str = f"{rate_pct:+d}%"\<close>
\<close>

definition rate_pct :: "pyfloat \<Rightarrow> py_exception + int" where
  "rate_pct speed = py_int (fmul (fsub speed (Finite 1)) (Finite 100))"

definition rate_string :: "pyfloat \<Rightarrow> py_exception + pystr" where
  "rate_string speed =
     (case rate_pct speed of
        Inl e \<Rightarrow> Inl e
      | Inr p \<Rightarrow> Inr (format_plus_d p @ lit ''%''))"

subsection \<open>The script checks on the text (lines 44 to 46)\<close>

text \<open>
  The three patterns are single character classes, so \<open>re.search\<close> finds the first
  code point of the text that lies in the class, or nothing; \<open>bool()\<close> of the result
  says whether a match was found.
\<close>

datatype class_item = Single nat | Range nat nat

fun item_matches :: "class_item \<Rightarrow> nat \<Rightarrow> bool" where
  "item_matches (Single a) c = (c = a)"
| "item_matches (Range a b) c = (a \<le> c \<and> c \<le> b)"

definition re_search :: "class_item list \<Rightarrow> pystr \<Rightarrow> nat option" where
  "re_search cls text = find (\<lambda>c. list_ex (\<lambda>i. item_matches i c) cls) text"

text \<open>
  The class of line 44 is written with the letters themselves: the ranges from U+0430 to
  U+044F and from U+0410 to U+042F, U+0451 and U+0401.
\<close>

definition has_cyrillic :: "pystr \<Rightarrow> bool" where
  "has_cyrillic text =
     (re_search [Range 0x430 0x44F, Range 0x410 0x42F, Single 0x451, Single 0x401] text \<noteq> None)"

definition has_chinese :: "pystr \<Rightarrow> bool" where
  "has_chinese text = (re_search [Range 0x4E00 0x9FFF] text \<noteq> None)"

definition has_arabic :: "pystr \<Rightarrow> bool" where
  "has_arabic text = (re_search [Range 0x600 0x6FF] text \<noteq> None)"

subsection \<open>Voices and the resolution of the voice (lines 26 to 90)\<close>

text \<open>An entry of the catalog \<open>edge_tts.list_voices()\<close> returns, with the keys the source reads.\<close>

record voice =
  ShortName :: pystr
  Locale :: pystr
  FriendlyName :: pystr
  Gender :: pystr

text \<open>
  \<^verbatim>\<open>valid_voices = {v["ShortName"]: v for v in voices}\<close>: a later entry of the catalog
  replaces an earlier one of the same short name.
\<close>

definition valid_voices :: "voice list \<Rightarrow> (pystr \<rightharpoonup> voice)" where
  "valid_voices voices = foldl (\<lambda>m v. m(ShortName v \<mapsto> v)) Map.empty voices"

text \<open>
  Lines 26 to 28. The empty string is replaced by \<open>None\<close>, and \<open>speaker_wav or "..."\<close>
  takes the fallback when \<open>speaker_wav\<close> is \<open>None\<close> or empty.
\<close>

definition default_voice :: "pystr option \<Rightarrow> pystr" where
  "default_voice speaker_wav =
     (let speaker_wav = (if speaker_wav = Some [] then None else speaker_wav)
      in case speaker_wav of
           None \<Rightarrow> lit ''ru-RU-DmitryNeural''
         | Some s \<Rightarrow> if s = [] then lit ''ru-RU-DmitryNeural'' else s)"

text \<open>\<^verbatim>\<open>voice_lang = voice_locale.split("-")[0].lower()\<close>\<close>

definition voice_lang :: "pystr \<Rightarrow> pystr" where
  "voice_lang voice_locale = lower (split_hyphen_0 voice_locale)"

text \<open>The working variables \<open>voice\<close>, \<open>voice_locale\<close> and \<open>voice_lang\<close> of the source.\<close>

type_synonym selection = "pystr \<times> pystr \<times> pystr"

text \<open>The \<open>ValueError\<close> of line 37.\<close>

definition invalid_voice_error :: "pystr \<Rightarrow> py_exception" where
  "invalid_voice_error voice =
     PyExc ValueError
       (lit ''Invalid voice ID: '' @ voice @ lit ''. Use /speakers endpoint to get valid voice IDs.'')
       None"

text \<open>
  The \<open>ValueError\<close> of lines 59, 73 and 87; the three messages differ in the name of the
  detected script and of the missing voices. The apostrophe is code point 39.
\<close>

definition mismatch_error :: "pystr \<Rightarrow> pystr \<Rightarrow> pystr \<Rightarrow> pystr \<Rightarrow> py_exception" where
  "mismatch_error detected wanted voice voice_locale =
     PyExc ValueError
       (lit ''Language mismatch: Detected '' @ detected @ lit '' text but selected voice '' @ [39]
          @ voice @ [39] @ lit '' is '' @ voice_locale @ lit '', and no '' @ wanted
          @ lit '' voices are available.'')
       None"

text \<open>Lines 49 to 62.\<close>

fun check_cyrillic :: "voice list \<Rightarrow> pystr \<Rightarrow> selection \<Rightarrow> py_exception + selection" where
  "check_cyrillic voices text (voice, voice_locale, vlang) =
     (if has_cyrillic text \<and> vlang \<notin> set [lit ''ru'', lit ''uk'', lit ''be''] then
        (case filter (\<lambda>v. prefix (lit ''ru-'') (Locale v)) voices of
           [] \<Rightarrow> Inl (mismatch_error (lit ''Russian/Cyrillic'') (lit ''Russian'') voice voice_locale)
         | r # _ \<Rightarrow> Inr (ShortName r, Locale r, voice_lang (Locale r)))
      else Inr (voice, voice_locale, vlang))"

text \<open>Lines 64 to 76.\<close>

fun check_chinese :: "voice list \<Rightarrow> pystr \<Rightarrow> selection \<Rightarrow> py_exception + selection" where
  "check_chinese voices text (voice, voice_locale, vlang) =
     (if has_chinese text \<and> \<not> (prefix (lit ''zh-'') voice_locale \<or> prefix (lit ''cmn-'') voice_locale) then
        (case filter (\<lambda>v. prefix (lit ''zh-'') (Locale v)) voices of
           [] \<Rightarrow> Inl (mismatch_error (lit ''Chinese'') (lit ''Chinese'') voice voice_locale)
         | r # _ \<Rightarrow> Inr (ShortName r, Locale r, voice_lang (Locale r)))
      else Inr (voice, voice_locale, vlang))"

text \<open>Lines 78 to 90.\<close>

fun check_arabic :: "voice list \<Rightarrow> pystr \<Rightarrow> selection \<Rightarrow> py_exception + selection" where
  "check_arabic voices text (voice, voice_locale, vlang) =
     (if has_arabic text \<and> \<not> prefix (lit ''ar-'') voice_locale then
        (case filter (\<lambda>v. prefix (lit ''ar-'') (Locale v)) voices of
           [] \<Rightarrow> Inl (mismatch_error (lit ''Arabic'') (lit ''Arabic'') voice voice_locale)
         | r # _ \<Rightarrow> Inr (ShortName r, Locale r, voice_lang (Locale r)))
      else Inr (voice, voice_locale, vlang))"

text \<open>
  Lines 26 to 90 on a fetched catalog: the default, the validation, and the three checks in
  the order of the source, each on the variables the one before left.
\<close>

definition resolve_voice :: "voice list \<Rightarrow> pystr \<Rightarrow> pystr option \<Rightarrow> py_exception + selection" where
  "resolve_voice voices text speaker_wav =
     (let voice = default_voice speaker_wav
      in case valid_voices voices voice of
           None \<Rightarrow> Inl (invalid_voice_error voice)
         | Some v \<Rightarrow>
             (case check_cyrillic voices text (voice, Locale v, voice_lang (Locale v)) of
                Inl e \<Rightarrow> Inl e
              | Inr s1 \<Rightarrow>
                  (case check_chinese voices text s1 of
                     Inl e \<Rightarrow> Inl e
                   | Inr s2 \<Rightarrow> check_arabic voices text s2)))"

subsection \<open>The provider, the file system and the call (lines 23 to 144)\<close>

text \<open>
  The file system maps a path to the size of the file there. The world a call runs in is
  the file system and the log of the synthesis requests sent to the provider (text, voice,
  rate string and destination).
\<close>

type_synonym fs = "pystr \<rightharpoonup> nat"

record world =
  files :: fs
  synth_calls :: "(pystr \<times> pystr \<times> pystr \<times> pystr) list"

text \<open>
  What the call depends on from outside, fixed for one call:
  \<^item> \<open>list_voices\<close>: the catalog \<open>edge_tts.list_voices()\<close> returns, or the exception it
    raises;
  \<^item> \<open>Communicate\<close>: the exception the constructor \<open>edge_tts.Communicate\<close> raises on
    its arguments, if any;
  \<^item> \<open>mkstemp\<close>: the path \<open>tempfile.mkstemp\<close> picks in the output directory;
  \<^item> \<open>save\<close>: what \<open>communicate.save(path)\<close> does: it returns or raises, and leaves
    the file system in some state.
\<close>

datatype save_outcome = Saved | Raised py_exception

record env =
  list_voices :: "py_exception + voice list"
  Communicate :: "pystr \<Rightarrow> pystr \<Rightarrow> pystr \<Rightarrow> py_exception option"
  mkstemp :: "fs \<Rightarrow> pystr"
  save :: "pystr \<Rightarrow> pystr \<Rightarrow> pystr \<Rightarrow> pystr \<Rightarrow> fs \<Rightarrow> save_outcome \<times> fs"

text \<open>The message of lines 127 to 133; the line feed is code point 10.\<close>

definition no_audio_message :: "pystr \<Rightarrow> pystr \<Rightarrow> pystr" where
  "no_audio_message voice voice_locale =
     lit ''No audio received from Edge TTS service. This usually means the voice '' @ [39] @ voice
       @ [39] @ lit '' ('' @ voice_locale
       @ lit '') cannot synthesize the provided text. Common causes:'' @ [10]
       @ lit ''1. Language mismatch: The voice language doesn'' @ [39]
       @ lit ''t match the text language'' @ [10]
       @ lit ''2. Unsupported characters: The text contains characters the voice cannot pronounce''
       @ [10] @ lit ''Please select a voice that matches your text language.''"

text \<open>\<^verbatim>\<open>if os.path.exists(path): os.remove(path)\<close>\<close>

definition remove_if_exists :: "pystr \<Rightarrow> world \<Rightarrow> world" where
  "remove_if_exists path w =
     (if files w path \<noteq> None then w\<lparr>files := (files w)(path := None)\<rparr> else w)"

text \<open>
  The two \<open>except\<close> clauses of lines 119 to 142, on an exception raised inside the
  \<open>try\<close> block: the first takes \<open>NoAudioReceived\<close>, the second every other
  exception of class \<open>Exception\<close>. An exception outside \<open>Exception\<close> matches neither
  clause: it leaves the function as it is, and none of the clean-up code runs.
\<close>

definition except_clauses ::
  "pystr \<Rightarrow> pystr \<Rightarrow> pystr \<Rightarrow> world \<Rightarrow> py_exception \<Rightarrow> (py_exception + pystr) \<times> world" where
  "except_clauses voice voice_locale path w e =
     (if exc_class e = NoAudioReceived then
        (Inl (PyExc ValueError (no_audio_message voice voice_locale) (Some e)),
         remove_if_exists path w)
      else if is_exception (exc_class e) then
        (Inl (PyExc Exception (lit ''Edge-TTS error: '' @ exc_str e) (Some e)),
         remove_if_exists path w)
      else (Inl e, w))"

text \<open>
  Lines 100 to 144. \<open>mkstemp\<close> creates the empty file; \<open>save\<close> runs on it; the two
  \<open>raise\<close> statements of the \<open>try\<close> block are caught by its own second \<open>except\<close> clause.
\<close>

definition save_audio ::
  "env \<Rightarrow> world \<Rightarrow> pystr \<Rightarrow> pystr \<Rightarrow> pystr \<Rightarrow> pystr \<Rightarrow> (py_exception + pystr) \<times> world" where
  "save_audio env w text voice voice_locale rate_str =
     (let path = mkstemp env (files w);
          (outcome, fs') = save env text voice rate_str path ((files w)(path \<mapsto> 0));
          w' = w\<lparr>files := fs', synth_calls := synth_calls w @ [(text, voice, rate_str, path)]\<rparr>
      in case outcome of
           Raised e \<Rightarrow> except_clauses voice voice_locale path w' e
         | Saved \<Rightarrow>
             (case files w' path of
                None \<Rightarrow>
                  except_clauses voice voice_locale path w'
                    (PyExc Exception (lit ''Audio file was not created'') None)
              | Some file_size \<Rightarrow>
                  if file_size = 0 then
                    except_clauses voice voice_locale path (w'\<lparr>files := (files w')(path := None)\<rparr>)
                      (PyExc Exception (lit ''Audio file is empty (0 bytes)'') None)
                  else (Inr path, w')))"

text \<open>
  Lines 26 to 98: everything before the output file is allocated. The result is the
  voice, its locale and the rate string handed to the provider.
\<close>

definition prepare :: "env \<Rightarrow> pystr \<Rightarrow> pystr option \<Rightarrow> pyfloat \<Rightarrow> py_exception + (pystr \<times> pystr \<times> pystr)" where
  "prepare env text speaker_wav speed =
     (case list_voices env of
        Inl e \<Rightarrow> Inl e
      | Inr voices \<Rightarrow>
          (case resolve_voice voices text speaker_wav of
             Inl e \<Rightarrow> Inl e
           | Inr (voice, voice_locale, vlang) \<Rightarrow>
               (case rate_string speed of
                  Inl e \<Rightarrow> Inl e
                | Inr rate_str \<Rightarrow>
                    (case Communicate env text voice rate_str of
                       Some e \<Rightarrow> Inl e
                     | None \<Rightarrow> Inr (voice, voice_locale, rate_str)))))"

text \<open>\<open>generate_audio_file(self, text, language, speaker_wav, speed)\<close>.\<close>

definition generate_audio_file ::
  "env \<Rightarrow> world \<Rightarrow> pystr \<Rightarrow> pystr \<Rightarrow> pystr option \<Rightarrow> pyfloat \<Rightarrow> (py_exception + pystr) \<times> world" where
  "generate_audio_file env w text language speaker_wav speed =
     (case prepare env text speaker_wav speed of
        Inl e \<Rightarrow> (Inl e, w)
      | Inr (voice, voice_locale, rate_str) \<Rightarrow> save_audio env w text voice voice_locale rate_str)"

subsection \<open>The resolution of the voice as the specification words it\<close>

text \<open>
  Section 4.3 of the specification: the detected hints are gone through in the order
  Cyrillic, Chinese, Arabic; a hint the working voice is not compatible with replaces the
  working voice by the first voice of the catalog whose locale has the prefix of the
  hint's family, or fails when there is none; the hints after it see the new voice.
\<close>

datatype script_hint = Cyrillic | Chinese | Arabic

fun detected :: "script_hint \<Rightarrow> pystr \<Rightarrow> bool" where
  "detected Cyrillic text = has_cyrillic text"
| "detected Chinese text = has_chinese text"
| "detected Arabic text = has_arabic text"

fun compatible :: "script_hint \<Rightarrow> selection \<Rightarrow> bool" where
  "compatible Cyrillic (voice, voice_locale, vlang) = (vlang \<in> set [lit ''ru'', lit ''uk'', lit ''be''])"
| "compatible Chinese (voice, voice_locale, vlang) =
     (prefix (lit ''zh-'') voice_locale \<or> prefix (lit ''cmn-'') voice_locale)"
| "compatible Arabic (voice, voice_locale, vlang) = prefix (lit ''ar-'') voice_locale"

fun family_prefix :: "script_hint \<Rightarrow> pystr" where
  "family_prefix Cyrillic = lit ''ru-''"
| "family_prefix Chinese = lit ''zh-''"
| "family_prefix Arabic = lit ''ar-''"

fun language_mismatch :: "script_hint \<Rightarrow> selection \<Rightarrow> py_exception" where
  "language_mismatch Cyrillic (voice, voice_locale, vlang) =
     mismatch_error (lit ''Russian/Cyrillic'') (lit ''Russian'') voice voice_locale"
| "language_mismatch Chinese (voice, voice_locale, vlang) =
     mismatch_error (lit ''Chinese'') (lit ''Chinese'') voice voice_locale"
| "language_mismatch Arabic (voice, voice_locale, vlang) =
     mismatch_error (lit ''Arabic'') (lit ''Arabic'') voice voice_locale"

definition spec_correct :: "voice list \<Rightarrow> script_hint \<Rightarrow> selection \<Rightarrow> py_exception + selection" where
  "spec_correct voices h sel =
     (if compatible h sel then Inr sel
      else case find (\<lambda>v. prefix (family_prefix h) (Locale v)) voices of
             None \<Rightarrow> Inl (language_mismatch h sel)
           | Some r \<Rightarrow> Inr (ShortName r, Locale r, voice_lang (Locale r)))"

fun spec_hints :: "voice list \<Rightarrow> script_hint list \<Rightarrow> selection \<Rightarrow> py_exception + selection" where
  "spec_hints voices [] sel = Inr sel"
| "spec_hints voices (h # hs) sel =
     (case spec_correct voices h sel of
        Inl e \<Rightarrow> Inl e
      | Inr sel' \<Rightarrow> spec_hints voices hs sel')"

definition spec_resolve :: "voice list \<Rightarrow> pystr \<Rightarrow> pystr option \<Rightarrow> py_exception + selection" where
  "spec_resolve voices text speaker_wav =
     (let voice = default_voice speaker_wav
      in case valid_voices voices voice of
           None \<Rightarrow> Inl (invalid_voice_error voice)
         | Some v \<Rightarrow>
             spec_hints voices (filter (\<lambda>h. detected h text) [Cyrillic, Chinese, Arabic])
               (voice, Locale v, voice_lang (Locale v)))"

text \<open>
  Section 4.2 of the specification speaks of the code points in the Cyrillic letter ranges.
  The letters of the Cyrillic block of Unicode are U+0400 to U+0481 and U+048A to U+04FF
  (U+0482 to U+0489 are a numeric sign and combining marks).
\<close>

definition spec_cyrillic_letter :: "nat \<Rightarrow> bool" where
  "spec_cyrillic_letter c = ((0x400 \<le> c \<and> c \<le> 0x481) \<or> (0x48A \<le> c \<and> c \<le> 0x4FF))"

subsection \<open>A small catalog, providers and a world for the examples\<close>

definition voice_en :: voice where
  "voice_en = \<lparr>ShortName = lit ''en-US-AriaNeural'', Locale = lit ''en-US'',
     FriendlyName = lit ''Microsoft Aria Online (Natural) - English (United States)'',
     Gender = lit ''Female''\<rparr>"

definition voice_ru :: voice where
  "voice_ru = \<lparr>ShortName = lit ''ru-RU-DmitryNeural'', Locale = lit ''ru-RU'',
     FriendlyName = lit ''Microsoft Dmitry Online (Natural) - Russian (Russia)'',
     Gender = lit ''Male''\<rparr>"

definition voice_zh :: voice where
  "voice_zh = \<lparr>ShortName = lit ''zh-CN-XiaoxiaoNeural'', Locale = lit ''zh-CN'',
     FriendlyName = lit ''Microsoft Xiaoxiao Online (Natural) - Chinese (Mainland)'',
     Gender = lit ''Female''\<rparr>"

definition catalog3 :: "voice list" where
  "catalog3 = [voice_en, voice_ru, voice_zh]"

definition tmp_path :: pystr where
  "tmp_path = lit ''output/tmpa1b2c3.mp3''"

text \<open>An environment over \<open>catalog3\<close> whose provider behaves as \<open>sv\<close> on the allocated file.\<close>

definition env_with :: "(pystr \<Rightarrow> fs \<Rightarrow> save_outcome \<times> fs) \<Rightarrow> env" where
  "env_with sv =
     \<lparr>list_voices = Inr catalog3,
      Communicate = (\<lambda>text voice rate. None),
      mkstemp = (\<lambda>fs. tmp_path),
      save = (\<lambda>text voice rate path fs. sv path fs)\<rparr>"

text \<open>The provider writes audio.\<close>

definition save_ok :: "pystr \<Rightarrow> fs \<Rightarrow> save_outcome \<times> fs" where
  "save_ok path fs = (Saved, fs(path \<mapsto> 4096))"


text \<open>The provider returns without having written anything.\<close>

definition save_nothing :: "pystr \<Rightarrow> fs \<Rightarrow> save_outcome \<times> fs" where
  "save_nothing path fs = (Saved, fs)"

text \<open>The provider fails with an exception whose text is the one of line 117.\<close>

definition save_fails :: "pystr \<Rightarrow> fs \<Rightarrow> save_outcome \<times> fs" where
  "save_fails path fs = (Raised (PyExc Exception (lit ''Audio file is empty (0 bytes)'') None), fs)"


definition world0 :: world where
  "world0 = \<lparr>files = Map.empty, synth_calls = []\<rparr>"

section \<open>Properties\<close>

subsection \<open>Rounding to binary64\<close>

lemma pow2_powi: "pow2 e = 2 powi e"
  by (simp add: pow2_def power_int_def power_one_over inverse_eq_divide)

lemma pow2_less_cancel: "pow2 e < pow2 e' \<Longrightarrow> e < e'"
proof (rule ccontr)
  assume "pow2 e < pow2 e'" and "\<not> e < e'"
  then have "e' \<le> e" by simp
  then have "(2::rat) powi e' \<le> 2 powi e" by (intro power_int_increasing) auto
  with \<open>pow2 e < pow2 e'\<close> show False by (simp add: pow2_powi)
qed

lemma pow2_bracket_unique:
  assumes "pow2 e \<le> a" "a < pow2 (e + 1)" "pow2 e' \<le> a" "a < pow2 (e' + 1)"
  shows "e = e'"
proof -
  have "pow2 e < pow2 (e' + 1)" using assms(1,4) by simp
  then have 1: "e < e' + 1" by (rule pow2_less_cancel)
  have "pow2 e' < pow2 (e + 1)" using assms(3,2) by simp
  then have 2: "e' < e + 1" by (rule pow2_less_cancel)
  from 1 2 show ?thesis by simp
qed

lemma ilog2_bracket:
  assumes "0 < a"
  shows "pow2 (ilog2 a) \<le> a \<and> a < pow2 (ilog2 a + 1)"
proof (cases "1 \<le> a")
  case True
  define n where "n = \<lfloor>a\<rfloor>"
  have n1: "1 \<le> n" using True by (simp add: n_def)
  then have npos: "0 < n" by simp
  have b1: "1 \<le> bitlen n" using npos bitlen_eq_zero_iff [of n] bitlen_nonneg [of n] by linarith
  from bitlen_bounds [OF npos] have lo: "2 ^ nat (bitlen n - 1) \<le> n" and hi: "n < 2 ^ nat (bitlen n)"
    by auto
  have "rat_of_int (2 ^ nat (bitlen n - 1)) \<le> rat_of_int n" using lo by (simp only: of_int_le_iff)
  also have "\<dots> \<le> a" by (simp add: n_def)
  finally have L: "pow2 (bitlen n - 1) \<le> a" using b1 by (simp add: pow2_def)
  have "n + 1 \<le> 2 ^ nat (bitlen n)" using hi by simp
  then have "rat_of_int (n + 1) \<le> rat_of_int (2 ^ nat (bitlen n))" by (simp only: of_int_le_iff)
  moreover have "a < rat_of_int (n + 1)" unfolding n_def by linarith
  ultimately have U: "a < pow2 (bitlen n)" using b1 by (simp add: pow2_def)
  from L U True show ?thesis by (simp add: ilog2_def n_def)
next
  case False
  define c where "c = \<lceil>1 / a\<rceil>"
  define m where "m = c - 1"
  have inv: "1 < 1 / a" using assms False by simp
  have "1 < rat_of_int c" using inv le_of_int_ceiling [of "1 / a"] unfolding c_def by linarith
  then have mpos: "0 < m" by (simp add: m_def)
  have b1: "1 \<le> bitlen m" using mpos bitlen_eq_zero_iff [of m] bitlen_nonneg [of m] by linarith
  from bitlen_bounds [OF mpos] have lo: "2 ^ nat (bitlen m - 1) \<le> m" and hi: "m < 2 ^ nat (bitlen m)"
    by auto
  have cm: "rat_of_int m < 1 / a" and ca: "1 / a \<le> rat_of_int (m + 1)"
    using ceiling_correct [of "1 / a"] by (simp_all add: m_def c_def)
  have "(2::rat) ^ nat (bitlen m - 1) \<le> rat_of_int m" using lo by simp
  from this cm have "2 ^ nat (bitlen m - 1) < 1 / a" by (rule le_less_trans)
  then have U: "a < 1 / 2 ^ nat (bitlen m - 1)" using assms by (simp add: field_simps)
  have "m + 1 \<le> 2 ^ nat (bitlen m)" using hi by simp
  then have "rat_of_int (m + 1) \<le> rat_of_int (2 ^ nat (bitlen m))" by (simp only: of_int_le_iff)
  also have "rat_of_int (2 ^ nat (bitlen m)) = 2 ^ nat (bitlen m)" by simp
  finally have "rat_of_int (m + 1) \<le> 2 ^ nat (bitlen m)" .
  with ca have "1 / a \<le> 2 ^ nat (bitlen m)" by (rule order_trans)
  then have L: "1 / 2 ^ nat (bitlen m) \<le> a" using assms by (simp add: field_simps)
  have e: "ilog2 a = - bitlen m" using False by (simp add: ilog2_def m_def c_def)
  have pL: "pow2 (- bitlen m) = 1 / 2 ^ nat (bitlen m)" using b1 by (simp add: pow2_def)
  have pU: "pow2 (- bitlen m + 1) = 1 / 2 ^ nat (bitlen m - 1)"
  proof (cases "bitlen m = 1")
    case True then show ?thesis by (simp add: pow2_def)
  next
    case False
    with b1 have "1 < bitlen m" by simp
    moreover from this have "nat (- (- bitlen m + 1)) = nat (bitlen m - 1)" by simp
    ultimately show ?thesis by (simp add: pow2_def)
  qed
  from L U show ?thesis unfolding e pL pU by simp
qed

lemma ilog2_eq:
  assumes "pow2 e \<le> a" "a < pow2 (e + 1)"
  shows "ilog2 a = e"
proof -
  have "0 < pow2 e" by (simp add: pow2_def)
  with assms(1) have "0 < a" by simp
  from ilog2_bracket [OF this] assms show ?thesis
    by (auto intro: pow2_bracket_unique)
qed

lemma round_half_even_near:
  assumes "\<bar>y - of_int n\<bar> < 1 / 2"
  shows "round_half_even y = n"
proof (cases "of_int n \<le> y")
  case True
  with assms have "\<lfloor>y\<rfloor> = n" by (intro floor_unique) auto
  with assms True show ?thesis by (simp add: round_half_even_def Let_def)
next
  case False
  with assms have "\<lfloor>y\<rfloor> = n - 1" by (intro floor_unique) auto
  with assms False show ?thesis by (auto simp add: round_half_even_def Let_def)
qed

lemma round_mag_eq:
  assumes "pow2 e \<le> a" and "a < pow2 (e + 1)" and "- 1022 \<le> e"
    and "\<bar>a / pow2 (e - 52) - of_int n\<bar> < 1 / 2"
  shows "round_mag a = of_int n * pow2 (e - 52)"
proof -
  have "ilog2 a = e" using assms(1,2) by (rule ilog2_eq)
  then have m: "max (ilog2 a) (- 1022) = e" using assms(3) by simp
  have "round_half_even (a / pow2 (e - 52)) = n"
    using assms(4) by (rule round_half_even_near)
  then show ?thesis
    unfolding round_mag_def Let_def m by simp
qed

text \<open>The float written \<open>0.8\<close> in Python: the binary64 value nearest to \<open>4/5\<close>.\<close>

lemma round_mag_four_fifths: "round_mag (4 / 5) = 3602879701896397 / 4503599627370496"
proof -
  have "round_mag (4 / 5) = of_int 7205759403792794 * pow2 (- 1 - 52)"
    by (rule round_mag_eq) (simp_all add: pow2_def)
  then show ?thesis by (simp add: pow2_def)
qed

lemma round64_four_fifths: "round64 (4 / 5) = Finite (3602879701896397 / 4503599627370496)"
  by (simp add: round64_def round_mag_four_fifths pow2_def Let_def)

text \<open>\<open>0.8 - 1.0\<close> is exact: the difference is itself a binary64 value.\<close>

lemma round_mag_one_fifth_below:
  "round_mag (900719925474099 / 4503599627370496) = 900719925474099 / 4503599627370496"
proof -
  have "round_mag (900719925474099 / 4503599627370496) = of_int 7205759403792792 * pow2 (- 3 - 52)"
    by (rule round_mag_eq) (simp_all add: pow2_def)
  then show ?thesis by (simp add: pow2_def)
qed

lemma fsub_four_fifths_one:
  "fsub (Finite (3602879701896397 / 4503599627370496)) (Finite 1) =
   Finite (- (900719925474099 / 4503599627370496))"
  by (simp add: round64_def round_mag_one_fifth_below pow2_def Let_def)

text \<open>
  The product with \<open>100\<close> is \<open>-19.99999999999999556\<close> exactly and is not a binary64
  value; the nearest one is \<open>-5629499534213119 / 2 ^ 48\<close>, still above \<open>-20\<close>.
\<close>

lemma round_mag_product:
  "round_mag (90071992547409900 / 4503599627370496) = 5629499534213119 / 281474976710656"
proof -
  have "round_mag (90071992547409900 / 4503599627370496) = of_int 5629499534213119 * pow2 (4 - 52)"
    by (rule round_mag_eq) (simp_all add: pow2_def)
  then show ?thesis by (simp add: pow2_def)
qed

lemma fmul_product:
  "fmul (Finite (- (900719925474099 / 4503599627370496))) (Finite 100) =
   Finite (- (5629499534213119 / 281474976710656))"
  using round_mag_product
  by (simp add: round64_def pow2_def Let_def)

lemma decimal_19: "decimal 19 = lit ''19''"
  by (simp add: decimal.simps lit_def)

text \<open>
  A rational that is a multiple of the spacing of its binade is a binary64 value and
  rounds to itself. With it, the speeds \<open>1.5\<close>, \<open>0.5\<close> and \<open>1.25\<close>, which are
  binary64 values with exact differences and products, get the rate strings the
  specification names; the string always starts with a sign and ends with the percent sign.
\<close>

lemma pow2_mono: "e \<le> e' \<Longrightarrow> pow2 e \<le> pow2 e'"
  unfolding pow2_powi by (rule power_int_increasing) simp_all

lemma round64_exact:
  assumes "pow2 e \<le> a" and "a < pow2 (e + 1)" and "- 1022 \<le> e" and "e \<le> 1023"
    and "a = of_int n * pow2 (e - 52)"
  shows "round64 a = Finite a"
proof -
  have "0 < pow2 e" by (simp add: pow2_def)
  with assms(1) have pos: "0 < a" by simp
  have q: "pow2 (e - 52) \<noteq> 0" by (simp add: pow2_def)
  have "a / pow2 (e - 52) = of_int n" using assms(5) q by simp
  then have "\<bar>a / pow2 (e - 52) - of_int n\<bar> < 1 / 2" by simp
  with assms(1-3) have "round_mag a = of_int n * pow2 (e - 52)" by (rule round_mag_eq)
  with assms(5) have r: "round_mag a = a" by simp
  have "pow2 (e + 1) \<le> pow2 1024" using assms(4) by (intro pow2_mono) simp
  with assms(2) have "\<not> pow2 1024 \<le> a" by simp
  with pos r show ?thesis by (simp add: round64_def)
qed

lemma round64_exact_minus:
  assumes "round64 a = Finite a" and "0 < a"
  shows "round64 (- a) = Finite (- a)"
  using assms by (auto simp add: round64_def Let_def split: if_splits)

lemma round64_half: "round64 (1 / 2) = Finite (1 / 2)"
  by (rule round64_exact [where e = "- 1" and n = 4503599627370496]) (simp_all add: pow2_def)

lemma round64_quarter: "round64 (1 / 4) = Finite (1 / 4)"
  by (rule round64_exact [where e = "- 2" and n = 4503599627370496]) (simp_all add: pow2_def)

lemma round64_50: "round64 50 = Finite 50"
  by (rule round64_exact [where e = 5 and n = 7036874417766400]) (simp_all add: pow2_def)

lemma round64_25: "round64 25 = Finite 25"
  by (rule round64_exact [where e = 4 and n = 7036874417766400]) (simp_all add: pow2_def)

lemma round64_minus_half: "round64 (- (1 / 2)) = Finite (- (1 / 2))"
  by (rule round64_exact_minus [OF round64_half]) simp

lemma round64_minus_50: "round64 (- 50) = Finite (- 50)"
  by (rule round64_exact_minus [OF round64_50]) simp

lemma decimal_50: "decimal 50 = lit ''50''"
  by (simp add: decimal.simps lit_def)

lemma decimal_25: "decimal 25 = lit ''25''"
  by (simp add: decimal.simps lit_def)

lemma rate_string_1_5: "rate_string (Finite (3 / 2)) = Inr (lit ''+50%'')"
  by (simp add: rate_string_def rate_pct_def round64_half round64_50 py_int_def
      format_plus_d_def decimal_50 lit_def)

lemma rate_string_0_5: "rate_string (Finite (1 / 2)) = Inr (lit ''-50%'')"
  by (simp add: rate_string_def rate_pct_def round64_minus_half round64_minus_50 py_int_def
      format_plus_d_def decimal_50 lit_def)

lemma rate_string_1_25: "rate_string (Finite (5 / 4)) = Inr (lit ''+25%'')"
  by (simp add: rate_string_def rate_pct_def round64_quarter round64_25 py_int_def
      format_plus_d_def decimal_25 lit_def)

lemma rate_string_signed:
  assumes "rate_string speed = Inr r"
  shows "(hd r = 43 \<or> hd r = 45) \<and> last r = 37"
  using assms
  by (auto simp add: rate_string_def format_plus_d_def lit_def split: sum.splits if_splits)

text \<open>
  C2 (defect of the code). The specification takes the rate to be
  \<open>round((s - 1.0) * 100)\<close> and names \<open>0.8\<close> with \<open>-20%\<close>. The source truncates with
  \<open>int()\<close>: at the float \<open>0.8\<close> the difference \<open>0.8 - 1.0\<close> is exact, the product
  with \<open>100\<close> rounds to a float just above \<open>-20\<close>, and the rate string is \<open>-19%\<close>.
\<close>

theorem rate_string_speed_0_8: "rate_string (round64 (4 / 5)) = Inr (lit ''-19%'')"
proof -
  have "rate_pct (round64 (4 / 5)) = Inr (- 19)"
    unfolding rate_pct_def round64_four_fifths fsub_four_fifths_one fmul_product
    by (simp add: py_int_def ceiling_unique)
  then show ?thesis
    by (simp add: rate_string_def format_plus_d_def decimal_19 lit_def)
qed

subsection \<open>The catalog and the script checks\<close>

lemma foldl_upd_None_iff:
  "foldl (\<lambda>m v. m(ShortName v \<mapsto> v)) m0 voices name = None
   \<longleftrightarrow> m0 name = None \<and> name \<notin> ShortName ` set voices"
  by (induction voices arbitrary: m0) auto

lemma valid_voices_None_iff:
  "valid_voices voices name = None \<longleftrightarrow> name \<notin> ShortName ` set voices"
  by (simp add: valid_voices_def foldl_upd_None_iff)

lemma filter_case_find:
  "(case filter P xs of [] \<Rightarrow> a | r # rs \<Rightarrow> f r) = (case find P xs of None \<Rightarrow> a | Some r \<Rightarrow> f r)"
  by (induction xs) auto

lemma cyrillic_class:
  "list_ex (\<lambda>i. item_matches i c) [Range 0x430 0x44F, Range 0x410 0x42F, Single 0x451, Single 0x401]
   \<longleftrightarrow> (0x410 \<le> c \<and> c \<le> 0x44F) \<or> c = 0x401 \<or> c = 0x451"
proof -
  have "((0x430 \<le> c \<and> c \<le> 0x44F) \<or> (0x410 \<le> c \<and> c \<le> 0x42F) \<or> c = 0x451 \<or> c = 0x401)
        = ((0x410 \<le> c \<and> c \<le> 0x44F) \<or> c = 0x401 \<or> c = 0x451)"
    by arith
  then show ?thesis by simp
qed

text \<open>
  C5 as stated fails. U+0456, the Ukrainian and Belarusian letter \<open>i\<close>, is a Cyrillic
  letter, and a text made of it alone does not raise the Cyrillic hint: the class of
  line 44 holds the letters of the Russian alphabet only.
\<close>

theorem has_cyrillic_counterexample:
  "spec_cyrillic_letter 0x456 \<and> \<not> has_cyrillic [0x456]"
  by (simp add: spec_cyrillic_letter_def has_cyrillic_def re_search_def)

text \<open>
  C5, amended. \<open>has_cyrillic\<close> holds exactly when the text has a code point from
  U+0410 to U+044F (the two ranges of the class of line 44 are adjacent), or one of
  U+0401 and U+0451, the letters \<open>IO\<close> in upper and lower case. It is a function of
  the text alone.
\<close>

theorem has_cyrillic_iff:
  "has_cyrillic text \<longleftrightarrow>
     (\<exists>c \<in> set text. (0x410 \<le> c \<and> c \<le> 0x44F) \<or> c = 0x401 \<or> c = 0x451)"
  unfolding has_cyrillic_def re_search_def find_None_iff cyrillic_class by blast


theorem has_cyrillic_iff_witness:
  "has_cyrillic [0x41F, 0x440, 0x438, 0x432, 0x435, 0x442] \<and> has_cyrillic [0x451] \<and> has_cyrillic [0x401]
   \<and> \<not> has_cyrillic (lit ''hello'')"
  using has_cyrillic_iff [of "[0x41F, 0x440, 0x438, 0x432, 0x435, 0x442]"]
    has_cyrillic_iff [of "[0x451]"] has_cyrillic_iff [of "[0x401]"]
    has_cyrillic_iff [of "lit ''hello''"]
  by (simp add: lit_def)

subsection \<open>Values on the example catalog\<close>

lemma catalog3_fields:
  "Locale voice_en = lit ''en-US''" "Locale voice_ru = lit ''ru-RU''" "Locale voice_zh = lit ''zh-CN''"
  "ShortName voice_en = lit ''en-US-AriaNeural''" "ShortName voice_ru = lit ''ru-RU-DmitryNeural''"
  "ShortName voice_zh = lit ''zh-CN-XiaoxiaoNeural''"
  by (simp_all add: voice_en_def voice_ru_def voice_zh_def)

lemma default_voice_en: "default_voice (Some (lit ''en-US-AriaNeural'')) = lit ''en-US-AriaNeural''"
  by (simp add: default_voice_def lit_def)

lemma valid_voices_catalog3_en:
  "valid_voices catalog3 (lit ''en-US-AriaNeural'') = Some voice_en"
  by (simp add: valid_voices_def catalog3_def voice_en_def voice_ru_def voice_zh_def lit_def)

lemma voice_lang_en: "voice_lang (lit ''en-US'') = lit ''en''"
  by (simp add: voice_lang_def split_hyphen_0_def lower_def lower_cp_def lit_def)

lemma voice_lang_zh: "voice_lang (lit ''zh-CN'') = lit ''zh''"
  by (simp add: voice_lang_def split_hyphen_0_def lower_def lower_cp_def lit_def)

lemma en_not_cyrillic_lang:
  "voice_lang (Locale voice_en) \<notin> set [lit ''ru'', lit ''uk'', lit ''be'']"
  by (simp add: catalog3_fields voice_lang_en) (simp add: lit_def)

lemma has_mixed:
  "has_cyrillic [0x43F, 0x4F60]" "has_chinese [0x43F, 0x4F60]" "\<not> has_arabic [0x43F, 0x4F60]"
  by (simp_all add: has_cyrillic_def has_chinese_def has_arabic_def re_search_def)

lemma find_ru: "find (\<lambda>v. prefix (lit ''ru-'') (Locale v)) catalog3 = Some voice_ru"
  by (simp add: catalog3_def voice_en_def voice_ru_def voice_zh_def lit_def)

lemma find_zh: "find (\<lambda>v. prefix (lit ''zh-'') (Locale v)) catalog3 = Some voice_zh"
  by (simp add: catalog3_def voice_en_def voice_ru_def voice_zh_def lit_def)

lemma resolve_mixed:
  "resolve_voice catalog3 [0x43F, 0x4F60] (Some (lit ''en-US-AriaNeural''))
   = Inr (lit ''zh-CN-XiaoxiaoNeural'', lit ''zh-CN'', lit ''zh'')"
proof -
  have n1: "lit ''en'' \<notin> set [lit ''ru'', lit ''uk'', lit ''be'']" by (simp add: lit_def)
  have p: "\<not> prefix (lit ''zh-'') (lit ''ru-RU'')" "\<not> prefix (lit ''cmn-'') (lit ''ru-RU'')"
    by (simp_all add: lit_def)
  show ?thesis
    using n1 p
    by (simp add: resolve_voice_def default_voice_en valid_voices_catalog3_en catalog3_fields
        voice_lang_en voice_lang_zh has_mixed filter_case_find find_ru find_zh)
qed

subsection \<open>The three checks are the hint loop of the specification\<close>

lemma voice_lang_ru: "prefix (lit ''ru-'') loc \<Longrightarrow> voice_lang loc = lit ''ru''"
  by (auto simp add: prefix_def lit_def voice_lang_def split_hyphen_0_def lower_def lower_cp_def)

lemma check_cyrillic_spec:
  "check_cyrillic voices text sel =
     (if has_cyrillic text then spec_correct voices Cyrillic sel else Inr sel)"
  by (cases sel) (simp add: spec_correct_def filter_case_find split: option.split)

lemma check_chinese_spec:
  "check_chinese voices text sel =
     (if has_chinese text then spec_correct voices Chinese sel else Inr sel)"
  by (cases sel) (simp add: spec_correct_def filter_case_find split: option.split)

lemma check_arabic_spec:
  "check_arabic voices text sel =
     (if has_arabic text then spec_correct voices Arabic sel else Inr sel)"
  by (cases sel) (simp add: spec_correct_def filter_case_find split: option.split)


lemma checks_as_hints:
  "(case check_cyrillic voices text sel of
      Inl e \<Rightarrow> Inl e
    | Inr s1 \<Rightarrow>
        (case check_chinese voices text s1 of
           Inl e \<Rightarrow> Inl e
         | Inr s2 \<Rightarrow> check_arabic voices text s2))
   = spec_hints voices (filter (\<lambda>h. detected h text) [Cyrillic, Chinese, Arabic]) sel"
  by (simp add: check_cyrillic_spec check_chinese_spec check_arabic_spec split: sum.split)

text \<open>
  C4. The resolution of the source is the one the specification words: the hints in the
  order Cyrillic, Chinese, Arabic, each checked against the voice the hints before it
  left, an incompatible one replacing the voice by the first catalog voice of its family
  (\<open>ru-\<close>, \<open>zh-\<close>, \<open>ar-\<close>) or failing with the language mismatch error.
\<close>

theorem resolve_voice_refines_spec:
  "resolve_voice voices text speaker_wav = spec_resolve voices text speaker_wav"
proof (cases "valid_voices voices (default_voice speaker_wav)")
  case None
  then show ?thesis by (simp add: resolve_voice_def spec_resolve_def)
next
  case (Some v)
  show ?thesis
    unfolding resolve_voice_def spec_resolve_def Let_def Some option.case
    by (rule checks_as_hints)
qed

theorem resolve_voice_refines_spec_witness:
  "spec_resolve catalog3 [0x43F, 0x4F60] (Some (lit ''en-US-AriaNeural''))
   = Inr (lit ''zh-CN-XiaoxiaoNeural'', lit ''zh-CN'', lit ''zh'')"
  using resolve_voice_refines_spec [of catalog3 "[0x43F, 0x4F60]" "Some (lit ''en-US-AriaNeural'')"]
  by (simp add: resolve_mixed)

subsection \<open>Cyrillic text and a voice of another language\<close>

text \<open>
  C1 as stated fails. The text below has a Cyrillic and a Chinese letter and the requested
  voice is English: the Cyrillic check switches to the Russian voice, the Chinese check
  then switches to the Chinese one, and the resolution completes with a voice whose
  language subtag is \<open>zh\<close>.
\<close>

theorem cyrillic_switch_counterexample:
  "has_cyrillic [0x43F, 0x4F60]
   \<and> valid_voices catalog3 (default_voice (Some (lit ''en-US-AriaNeural''))) = Some voice_en
   \<and> voice_lang (Locale voice_en) \<notin> set [lit ''ru'', lit ''uk'', lit ''be'']
   \<and> resolve_voice catalog3 [0x43F, 0x4F60] (Some (lit ''en-US-AriaNeural''))
       = Inr (lit ''zh-CN-XiaoxiaoNeural'', lit ''zh-CN'', lit ''zh'')
   \<and> lit ''zh'' \<notin> set [lit ''ru'', lit ''uk'', lit ''be'']"
proof -
  have n2: "lit ''zh'' \<notin> set [lit ''ru'', lit ''uk'', lit ''be'']" by (simp add: lit_def)
  from resolve_mixed en_not_cyrillic_lang n2 show ?thesis
    by (simp only: has_mixed default_voice_en valid_voices_catalog3_en simp_thms)
qed

text \<open>
  C1, amended. For a text with a Cyrillic letter of the class of line 44 and no Chinese or
  Arabic code point, and a requested (or defaulted) voice of the catalog whose language
  subtag is none of \<open>ru\<close>, \<open>uk\<close>, \<open>be\<close>: the resolution returns the first voice of
  the catalog whose locale starts with \<open>ru-\<close>, with language subtag \<open>ru\<close>, and it
  fails with the language mismatch error exactly when the catalog has no such voice
  (voices of locale \<open>uk-\<close> or \<open>be-\<close> are not taken as replacements).
\<close>

theorem cyrillic_only_resolution:
  assumes "has_cyrillic text" and "\<not> has_chinese text" and "\<not> has_arabic text"
    and "valid_voices voices (default_voice speaker_wav) = Some v"
    and "voice_lang (Locale v) \<notin> set [lit ''ru'', lit ''uk'', lit ''be'']"
  shows "resolve_voice voices text speaker_wav =
     (case find (\<lambda>r. prefix (lit ''ru-'') (Locale r)) voices of
        None \<Rightarrow> Inl (mismatch_error (lit ''Russian/Cyrillic'') (lit ''Russian'')
                       (default_voice speaker_wav) (Locale v))
      | Some r \<Rightarrow> Inr (ShortName r, Locale r, lit ''ru''))"
proof (cases "find (\<lambda>r. prefix (lit ''ru-'') (Locale r)) voices")
  case None
  with assms show ?thesis
    by (simp add: resolve_voice_def filter_case_find)
next
  case (Some r)
  then have "prefix (lit ''ru-'') (Locale r)" by (auto simp add: find_Some_iff)
  then have "voice_lang (Locale r) = lit ''ru''" by (rule voice_lang_ru)
  with assms Some show ?thesis
    by (simp add: resolve_voice_def filter_case_find)
qed

theorem cyrillic_only_resolution_witness:
  "has_cyrillic [0x43F] \<and> \<not> has_chinese [0x43F] \<and> \<not> has_arabic [0x43F]
   \<and> valid_voices catalog3 (default_voice (Some (lit ''en-US-AriaNeural''))) = Some voice_en
   \<and> voice_lang (Locale voice_en) \<notin> set [lit ''ru'', lit ''uk'', lit ''be'']
   \<and> resolve_voice catalog3 [0x43F] (Some (lit ''en-US-AriaNeural''))
       = Inr (lit ''ru-RU-DmitryNeural'', lit ''ru-RU'', lit ''ru'')"
proof -
  have h: "has_cyrillic [0x43F]" "\<not> has_chinese [0x43F]" "\<not> has_arabic [0x43F]"
    by (simp_all add: has_cyrillic_def has_chinese_def has_arabic_def re_search_def)
  have v: "valid_voices catalog3 (default_voice (Some (lit ''en-US-AriaNeural''))) = Some voice_en"
    unfolding default_voice_en by (rule valid_voices_catalog3_en)
  from cyrillic_only_resolution [OF h v en_not_cyrillic_lang] h v en_not_cyrillic_lang show ?thesis
    by (simp add: find_ru catalog3_fields)
qed

subsection \<open>Further values on the example catalog\<close>

lemma round64_0: "round64 0 = Finite 0"
  by (simp add: round64_def)

lemma decimal_0: "decimal 0 = lit ''0''"
  by (simp add: decimal.simps lit_def)

lemma rate_string_1: "rate_string (Finite 1) = Inr (lit ''+0%'')"
  by (simp add: rate_string_def rate_pct_def round64_0 py_int_def format_plus_d_def decimal_0 lit_def)

lemma has_hello:
  "\<not> has_cyrillic (lit ''hello'')" "\<not> has_chinese (lit ''hello'')" "\<not> has_arabic (lit ''hello'')"
  by (simp_all add: has_cyrillic_def has_chinese_def has_arabic_def re_search_def lit_def)

lemma resolve_hello:
  "resolve_voice catalog3 (lit ''hello'') (Some (lit ''en-US-AriaNeural''))
   = Inr (lit ''en-US-AriaNeural'', lit ''en-US'', lit ''en'')"
  by (simp add: resolve_voice_def default_voice_en valid_voices_catalog3_en catalog3_fields
      voice_lang_en has_hello)

lemma prepare_hello:
  "prepare (env_with sv) (lit ''hello'') (Some (lit ''en-US-AriaNeural'')) (Finite 1)
   = Inr (lit ''en-US-AriaNeural'', lit ''en-US'', lit ''+0%'')"
  by (simp add: prepare_def env_with_def resolve_hello rate_string_1)

lemma has_meem:
  "\<not> has_cyrillic [0x645]" "\<not> has_chinese [0x645]" "has_arabic [0x645]"
  by (simp_all add: has_cyrillic_def has_chinese_def has_arabic_def re_search_def)

lemma resolve_meem:
  "resolve_voice catalog3 [0x645] (Some (lit ''en-US-AriaNeural''))
   = Inl (mismatch_error (lit ''Arabic'') (lit ''Arabic'') (lit ''en-US-AriaNeural'') (lit ''en-US''))"
proof -
  have p: "\<not> prefix (lit ''ar-'') (lit ''en-US'')" by (simp add: lit_def)
  have f: "filter (\<lambda>v. prefix (lit ''ar-'') (Locale v)) catalog3 = []"
    by (simp add: catalog3_def voice_en_def voice_ru_def voice_zh_def lit_def)
  show ?thesis
    using p
    by (simp add: resolve_voice_def default_voice_en valid_voices_catalog3_en catalog3_fields
        voice_lang_en has_meem f)
qed

subsection \<open>The call as a whole\<close>

text \<open>
  C6. When the requested (or defaulted) voice id is not a short name of the catalog, the
  call fails with the \<open>ValueError\<close> of line 37 (the unknown voice error), whatever the
  text is, and the world is the one before the call: no file was allocated and the log of
  provider synthesis requests is unchanged.
\<close>

theorem unknown_voice_fails_before_provider:
  assumes "list_voices env = Inr voices"
    and "default_voice speaker_wav \<notin> ShortName ` set voices"
  shows "generate_audio_file env w text language speaker_wav speed
         = (Inl (invalid_voice_error (default_voice speaker_wav)), w)"
proof -
  have "valid_voices voices (default_voice speaker_wav) = None"
    using assms(2) by (simp add: valid_voices_None_iff)
  then have "resolve_voice voices text speaker_wav = Inl (invalid_voice_error (default_voice speaker_wav))"
    by (simp add: resolve_voice_def)
  with assms(1) show ?thesis
    by (simp add: generate_audio_file_def prepare_def)
qed

theorem unknown_voice_fails_before_provider_witness:
  "list_voices (env_with save_ok) = Inr catalog3
   \<and> default_voice (Some (lit ''not-a-real-voice'')) \<notin> ShortName ` set catalog3
   \<and> generate_audio_file (env_with save_ok) world0 (lit ''hello'') (lit ''en'')
         (Some (lit ''not-a-real-voice'')) (Finite 1)
       = (Inl (invalid_voice_error (lit ''not-a-real-voice'')), world0)"
proof -
  have l: "list_voices (env_with save_ok) = Inr catalog3" by (simp add: env_with_def)
  have d: "default_voice (Some (lit ''not-a-real-voice'')) = lit ''not-a-real-voice''"
    by (simp add: default_voice_def lit_def)
  have n: "default_voice (Some (lit ''not-a-real-voice'')) \<notin> ShortName ` set catalog3"
    unfolding d by (simp add: catalog3_def catalog3_fields) (simp add: lit_def)
  from unknown_voice_fails_before_provider [OF l n] l n show ?thesis
    by (simp add: d)
qed





text \<open>
  C9. The argument \<open>language\<close> is never read: two calls that differ in it only have the
  same result and leave the same world (the log holds the voice and the rate string sent).
\<close>

theorem language_is_ignored:
  "generate_audio_file env w text language speaker_wav speed
   = generate_audio_file env w text language' speaker_wav speed"
  by (simp add: generate_audio_file_def)

theorem language_is_ignored_witness:
  "generate_audio_file (env_with save_ok) world0 (lit ''hello'') (lit ''ru'') None (Finite 1)
   = generate_audio_file (env_with save_ok) world0 (lit ''hello'') (lit ''zh'') None (Finite 1)"
  using language_is_ignored [of "env_with save_ok" world0 "lit ''hello''" "lit ''ru''" None "Finite 1" "lit ''zh''"]
  by simp

text \<open>
  C10. When the resolution of the voice fails (unknown voice or language mismatch), the
  call fails with that error and the world is unchanged: no output file was allocated or
  created.
\<close>

theorem resolution_failure_leaves_world:
  assumes "list_voices env = Inr voices"
    and "resolve_voice voices text speaker_wav = Inl e"
  shows "generate_audio_file env w text language speaker_wav speed = (Inl e, w)"
  using assms by (simp add: generate_audio_file_def prepare_def)

theorem resolution_failure_leaves_world_witness:
  "list_voices (env_with save_ok) = Inr catalog3
   \<and> resolve_voice catalog3 [0x645] (Some (lit ''en-US-AriaNeural''))
       = Inl (mismatch_error (lit ''Arabic'') (lit ''Arabic'') (lit ''en-US-AriaNeural'') (lit ''en-US''))
   \<and> generate_audio_file (env_with save_ok) world0 [0x645] (lit ''ar'') (Some (lit ''en-US-AriaNeural'')) (Finite 1)
       = (Inl (mismatch_error (lit ''Arabic'') (lit ''Arabic'') (lit ''en-US-AriaNeural'') (lit ''en-US'')), world0)"
proof -
  have l: "list_voices (env_with save_ok) = Inr catalog3" by (simp add: env_with_def)
  from resolution_failure_leaves_world [OF l resolve_meem] l resolve_meem show ?thesis
    by simp
qed

lemma env_with_fields:
  "mkstemp (env_with sv) fs = tmp_path"
  "save (env_with sv) text voice rate path fs = sv path fs"
  by (simp_all add: env_with_def)






subsection \<open>An empty or missing artifact\<close>

lemma generate_nothing:
  "generate_audio_file (env_with save_nothing) world0 (lit ''hello'') (lit ''en'')
     (Some (lit ''en-US-AriaNeural'')) (Finite 1)
   = (Inl (PyExc Exception (lit ''Edge-TTS error: '' @ lit ''Audio file is empty (0 bytes)'')
            (Some (PyExc Exception (lit ''Audio file is empty (0 bytes)'') None))),
      \<lparr>files = Map.empty,
       synth_calls = [(lit ''hello'', lit ''en-US-AriaNeural'', lit ''+0%'', tmp_path)]\<rparr>)"
  by (simp add: generate_audio_file_def prepare_hello save_audio_def env_with_fields save_nothing_def
      world0_def except_clauses_def remove_if_exists_def)

lemma generate_fails:
  "generate_audio_file (env_with save_fails) world0 (lit ''hello'') (lit ''en'')
     (Some (lit ''en-US-AriaNeural'')) (Finite 1)
   = (Inl (PyExc Exception (lit ''Edge-TTS error: '' @ lit ''Audio file is empty (0 bytes)'')
            (Some (PyExc Exception (lit ''Audio file is empty (0 bytes)'') None))),
      \<lparr>files = Map.empty,
       synth_calls = [(lit ''hello'', lit ''en-US-AriaNeural'', lit ''+0%'', tmp_path)]\<rparr>)"
  by (simp add: generate_audio_file_def prepare_hello save_audio_def env_with_fields save_fails_def
      world0_def except_clauses_def remove_if_exists_def)

text \<open>
  C7 as stated fails: the source has no error of its own for an empty artifact. The
  \<open>raise\<close> of line 117 is inside the \<open>try\<close> block and is caught by the clause of
  line 136, which wraps it as it wraps every provider failure. A provider that returns and
  leaves an empty file and a provider that fails with an exception of the same text give
  the same result and the same world, so a caller cannot tell them apart.
\<close>

theorem empty_artifact_counterexample:
  "save (env_with save_nothing) (lit ''hello'') (lit ''en-US-AriaNeural'') (lit ''+0%'') tmp_path
       [tmp_path \<mapsto> 0] = (Saved, [tmp_path \<mapsto> 0])
   \<and> save (env_with save_fails) (lit ''hello'') (lit ''en-US-AriaNeural'') (lit ''+0%'') tmp_path
       [tmp_path \<mapsto> 0]
       = (Raised (PyExc Exception (lit ''Audio file is empty (0 bytes)'') None), [tmp_path \<mapsto> 0])
   \<and> generate_audio_file (env_with save_nothing) world0 (lit ''hello'') (lit ''en'')
         (Some (lit ''en-US-AriaNeural'')) (Finite 1)
       = generate_audio_file (env_with save_fails) world0 (lit ''hello'') (lit ''en'')
         (Some (lit ''en-US-AriaNeural'')) (Finite 1)"
  by (simp add: generate_nothing generate_fails env_with_fields save_nothing_def save_fails_def)

text \<open>
  C7, amended. When the provider call returns and the artifact is missing or has size
  zero, the call removes the artifact and fails with an exception of class
  \<open>Exception\<close> whose text is \<open>Edge-TTS error: \<close> followed by
  \<open>Audio file was not created\<close> or \<open>Audio file is empty (0 bytes)\<close>: the class and
  the prefix every provider failure of class \<open>Exception\<close> other than
  \<open>NoAudioReceived\<close> gets.
\<close>

theorem empty_artifact_failure:
  assumes "prepare env text speaker_wav speed = Inr (voice, voice_locale, rate_str)"
    and "save env text voice rate_str (mkstemp env (files w)) ((files w)(mkstemp env (files w) \<mapsto> 0))
         = (Saved, fs')"
    and "fs' (mkstemp env (files w)) = None \<or> fs' (mkstemp env (files w)) = Some 0"
  shows "generate_audio_file env w text language speaker_wav speed =
     (let path = mkstemp env (files w);
          msg = (if fs' path = None then lit ''Audio file was not created''
                 else lit ''Audio file is empty (0 bytes)'')
      in (Inl (PyExc Exception (lit ''Edge-TTS error: '' @ msg) (Some (PyExc Exception msg None))),
          w\<lparr>files := fs'(path := None),
            synth_calls := synth_calls w @ [(text, voice, rate_str, path)]\<rparr>))"
proof -
  from assms(3) show ?thesis
  proof
    assume n: "fs' (mkstemp env (files w)) = None"
    then have "fs'(mkstemp env (files w) := None) = fs'" by (rule fun_upd_idem)
    with n show ?thesis
      by (simp add: generate_audio_file_def assms(1) save_audio_def Let_def assms(2)
          except_clauses_def remove_if_exists_def)
  next
    assume z: "fs' (mkstemp env (files w)) = Some 0"
    then show ?thesis
      by (simp add: generate_audio_file_def assms(1) save_audio_def Let_def assms(2)
          except_clauses_def remove_if_exists_def)
  qed
qed

theorem empty_artifact_failure_witness:
  "prepare (env_with save_nothing) (lit ''hello'') (Some (lit ''en-US-AriaNeural'')) (Finite 1)
     = Inr (lit ''en-US-AriaNeural'', lit ''en-US'', lit ''+0%'')
   \<and> save (env_with save_nothing) (lit ''hello'') (lit ''en-US-AriaNeural'') (lit ''+0%'')
        (mkstemp (env_with save_nothing) (files world0))
        ((files world0)(mkstemp (env_with save_nothing) (files world0) \<mapsto> 0))
       = (Saved, [tmp_path \<mapsto> 0])
   \<and> [tmp_path \<mapsto> (0::nat)] (mkstemp (env_with save_nothing) (files world0)) = Some 0
   \<and> generate_audio_file (env_with save_nothing) world0 (lit ''hello'') (lit ''en'')
        (Some (lit ''en-US-AriaNeural'')) (Finite 1)
       = (Inl (PyExc Exception (lit ''Edge-TTS error: '' @ lit ''Audio file is empty (0 bytes)'')
            (Some (PyExc Exception (lit ''Audio file is empty (0 bytes)'') None))),
          \<lparr>files = Map.empty,
           synth_calls = [(lit ''hello'', lit ''en-US-AriaNeural'', lit ''+0%'', tmp_path)]\<rparr>)"
proof -
  have s: "save (env_with save_nothing) (lit ''hello'') (lit ''en-US-AriaNeural'') (lit ''+0%'')
        (mkstemp (env_with save_nothing) (files world0))
        ((files world0)(mkstemp (env_with save_nothing) (files world0) \<mapsto> 0))
       = (Saved, [tmp_path \<mapsto> 0])"
    by (simp add: env_with_fields save_nothing_def world0_def)
  have z: "[tmp_path \<mapsto> (0::nat)] (mkstemp (env_with save_nothing) (files world0)) = None
           \<or> [tmp_path \<mapsto> (0::nat)] (mkstemp (env_with save_nothing) (files world0)) = Some 0"
    by (simp add: env_with_fields)
  from empty_artifact_failure [OF prepare_hello s z, of "lit ''en''"] prepare_hello [of save_nothing] s
  show ?thesis
    by (simp add: env_with_fields world0_def Let_def fun_eq_iff)
qed

end
